theory Spec2Isabelle
  imports Complex_Main
begin

section \<open>Python values and exceptions\<close>

text \<open>
  The values that \<^verbatim>\<open>transcribe_audio\<close> builds and \<^verbatim>\<open>json.dumps\<close> prints: strings,
  integers, floats, lists and dictionaries. A dictionary is an association list, in
  insertion order, since the order of the keys shows in the printed document.
  The driver only copies floats and never computes with them, so the type of floats is the
  parameter \<open>'f\<close>.
\<close>

datatype 'f py_value =
    PStr string
  | PInt int
  | PFloat 'f
  | PList "'f py_value list"
  | PDict "(string \<times> 'f py_value) list"

text \<open>
  An instance of Python's \<^verbatim>\<open>Exception\<close> class (or of a subclass), as the clause
  \<^verbatim>\<open>except Exception as e\<close> sees it: all the driver reads is \<^verbatim>\<open>str(e)\<close>.
\<close>

datatype py_exception = Exception (str_of: string)

text \<open>\<^verbatim>\<open>d[k]\<close> on a dictionary; \<open>None\<close> where Python has no such entry.\<close>

fun dict_get :: "'f py_value \<Rightarrow> string \<Rightarrow> 'f py_value option" where
  "dict_get (PDict kvs) k = map_of kvs k"
| "dict_get _ k = None"

text \<open>\<^verbatim>\<open>sep.join(xs)\<close>\<close>

fun py_join :: "string \<Rightarrow> string list \<Rightarrow> string" where
  "py_join sep [] = []"
| "py_join sep [x] = x"
| "py_join sep (x # y # ys) = x @ sep @ py_join sep (y # ys)"

section \<open>The library \<^verbatim>\<open>faster_whisper\<close>, a black box\<close>

text \<open>
  The fields of a library segment and of the summary info that the driver reads.
\<close>

record 'f Segment =
  seg_id :: int
  seg_start :: 'f
  seg_end :: 'f
  seg_text :: string

record 'f TranscriptionInfo =
  info_language :: string
  info_duration :: 'f

text \<open>
  The lazily produced, single-pass sequence of segments: each \<^verbatim>\<open>next()\<close> yields a segment,
  ends the iteration, or raises (the library decodes while the driver iterates). The audio
  is finite, and so is the sequence.
\<close>

datatype 'f segments_gen =
    Gen_Stop
  | Gen_Yield "'f Segment" "'f segments_gen"
  | Gen_Raise py_exception

text \<open>The segments a generator yields, in order, and the exception that ends it, if any.\<close>

fun yielded :: "'f segments_gen \<Rightarrow> 'f Segment list" where
  "yielded Gen_Stop = []"
| "yielded (Gen_Yield s g) = s # yielded g"
| "yielded (Gen_Raise e) = []"

fun gen_raises :: "'f segments_gen \<Rightarrow> py_exception option" where
  "gen_raises Gen_Stop = None"
| "gen_raises (Gen_Yield s g) = gen_raises g"
| "gen_raises (Gen_Raise e) = Some e"

text \<open>
  The two operations of the library: the constructor
  \<^verbatim>\<open>WhisperModel(model_size, device=..., compute_type=...)\<close> and the method
  \<^verbatim>\<open>model.transcribe(audio, language=..., beam_size=..., word_timestamps=...)\<close>. Either
  returns or raises; what they do is not the driver's, so they are parameters.
\<close>

record ('m, 'f) faster_whisper =
  WhisperModel :: "string \<Rightarrow> string \<Rightarrow> string \<Rightarrow> py_exception + 'm"
  transcribe :: "'m \<Rightarrow> string \<Rightarrow> string \<Rightarrow> int \<Rightarrow> bool \<Rightarrow>
                 py_exception + ('f segments_gen \<times> 'f TranscriptionInfo)"

section \<open>The process: its two streams and the calls it makes into the library\<close>

datatype 'm lib_call =
    Call_WhisperModel string string string
  | Call_transcribe 'm string string int bool

text \<open>
  Each stream is the list of the strings printed to it, one entry per call of \<^verbatim>\<open>print\<close>
  (which ends each with a newline).
\<close>

record 'm process =
  stdout :: "string list"
  stderr :: "string list"
  calls :: "'m lib_call list"

definition init_process :: "'m process" where
  "init_process = \<lparr>stdout = [], stderr = [], calls = []\<rparr>"

definition print_stdout :: "string \<Rightarrow> 'm process \<Rightarrow> 'm process" where
  "print_stdout s st = st\<lparr>stdout := stdout st @ [s]\<rparr>"

definition print_stderr :: "string \<Rightarrow> 'm process \<Rightarrow> 'm process" where
  "print_stderr s st = st\<lparr>stderr := stderr st @ [s]\<rparr>"

definition log_call :: "'m lib_call \<Rightarrow> 'm process \<Rightarrow> 'm process" where
  "log_call c st = st\<lparr>calls := calls st @ [c]\<rparr>"

section \<open>\<^verbatim>\<open>transcribe_audio\<close>\<close>

text \<open>The dictionary appended to \<^verbatim>\<open>segment_list\<close> for one segment (lines 41 to 46).\<close>

definition segment_entry :: "'f Segment \<Rightarrow> 'f py_value" where
  "segment_entry segment =
     PDict [(''id'', PInt (seg_id segment)),
            (''start'', PFloat (seg_start segment)),
            (''end'', PFloat (seg_end segment)),
            (''text'', PStr (seg_text segment))]"

text \<open>
  The loop \<^verbatim>\<open>for segment in segments\<close> with its two accumulators. An exception raised by
  the generator leaves the loop and the function.
\<close>

fun consume :: "'f segments_gen \<Rightarrow> 'f py_value list \<Rightarrow> string list \<Rightarrow>
                py_exception + ('f py_value list \<times> string list)" where
  "consume Gen_Stop segment_list full_text = Inr (segment_list, full_text)"
| "consume (Gen_Raise e) segment_list full_text = Inl e"
| "consume (Gen_Yield segment rest) segment_list full_text =
     consume rest (segment_list @ [segment_entry segment]) (full_text @ [seg_text segment])"

definition transcribe_audio ::
  "('m, 'f) faster_whisper \<Rightarrow> string \<Rightarrow> string \<Rightarrow> 'm process \<Rightarrow>
   (py_exception + 'f py_value) \<times> 'm process" where
  "transcribe_audio lib audio_path language st0 =
     (let st1 = print_stderr ''Loading Whisper model...'' st0;
          st2 = log_call (Call_WhisperModel ''large-v3'' ''cpu'' ''int8'') st1
      in case WhisperModel lib ''large-v3'' ''cpu'' ''int8'' of
           Inl e \<Rightarrow> (Inl e, st2)
         | Inr model \<Rightarrow>
             (let st3 = print_stderr (''Transcribing: '' @ audio_path) st2;
                  st4 = log_call (Call_transcribe model audio_path language 5 False) st3
              in case transcribe lib model audio_path language 5 False of
                   Inl e \<Rightarrow> (Inl e, st4)
                 | Inr (segments, info) \<Rightarrow>
                     (case consume segments [] [] of
                        Inl e \<Rightarrow> (Inl e, st4)
                      | Inr (segment_list, full_text) \<Rightarrow>
                          (Inr (PDict [(''language'', PStr (info_language info)),
                                       (''duration'', PFloat (info_duration info)),
                                       (''text'', PStr (py_join '' '' full_text)),
                                       (''segments'', PList segment_list)]),
                           st4))))"

section \<open>\<^verbatim>\<open>json.dumps\<close>\<close>

text \<open>
  The standard library's encoder, for the values above and for the two options that the
  script passes, \<^verbatim>\<open>ensure_ascii\<close> and \<^verbatim>\<open>indent\<close>. A \<open>string\<close> here is the UTF-8 text, so
  a character outside ASCII is a run of bytes from \<^verbatim>\<open>0x80\<close> on.

  With \<^verbatim>\<open>ensure_ascii=False\<close> a string is quoted and only the quote, the backslash and the
  control characters below \<^verbatim>\<open>0x20\<close> are escaped (\<^verbatim>\<open>encode_basestring\<close>).
\<close>

definition hex_digit :: "nat \<Rightarrow> char" where
  "hex_digit n = ''0123456789abcdef'' ! (n mod 16)"

definition escape_char :: "char \<Rightarrow> string" where
  "escape_char c =
     (if c = CHR 0x22 then [CHR 0x5C, CHR 0x22]
      else if c = CHR 0x5C then [CHR 0x5C, CHR 0x5C]
      else if c = CHR 0x0A then [CHR 0x5C, CHR ''n'']
      else if c = CHR 0x0D then [CHR 0x5C, CHR ''r'']
      else if c = CHR 0x09 then [CHR 0x5C, CHR ''t'']
      else if c = CHR 0x08 then [CHR 0x5C, CHR ''b'']
      else if c = CHR 0x0C then [CHR 0x5C, CHR ''f'']
      else if (of_char c :: nat) < 0x20
        then [CHR 0x5C, CHR ''u'', CHR ''0'', CHR ''0'',
              hex_digit (of_char c div 16), hex_digit (of_char c mod 16)]
      else [c])"

definition py_encode_basestring :: "string \<Rightarrow> string" where
  "py_encode_basestring s = [CHR 0x22] @ concat (map escape_char s) @ [CHR 0x22]"

text \<open>
  With \<^verbatim>\<open>ensure_ascii=True\<close> every character outside the printable ASCII range is escaped
  as well (\<^verbatim>\<open>encode_basestring_ascii\<close>): a code point below \<^verbatim>\<open>0x10000\<close> as \<^verbatim>\<open>\uXXXX\<close>, a
  higher one as a surrogate pair. The code points are read off the UTF-8 text, \<open>pending\<close>
  counting the continuation bytes still to come.
\<close>

fun utf8_code_points :: "nat \<Rightarrow> nat \<Rightarrow> string \<Rightarrow> nat list" where
  "utf8_code_points pending acc [] = []"
| "utf8_code_points 0 acc (c # cs) =
     (if (of_char c :: nat) < 0x80 then of_char c # utf8_code_points 0 0 cs
      else if (of_char c :: nat) < 0xE0 then utf8_code_points 1 (of_char c mod 0x20) cs
      else if (of_char c :: nat) < 0xF0 then utf8_code_points 2 (of_char c mod 0x10) cs
      else utf8_code_points 3 (of_char c mod 0x08) cs)"
| "utf8_code_points (Suc k) acc (c # cs) =
     (if k = 0 then (acc * 0x40 + of_char c mod 0x40) # utf8_code_points 0 0 cs
      else utf8_code_points k (acc * 0x40 + of_char c mod 0x40) cs)"

definition hex4 :: "nat \<Rightarrow> string" where
  "hex4 n = [hex_digit (n div 0x1000), hex_digit (n div 0x100), hex_digit (n div 0x10),
             hex_digit n]"

definition escape_code_point :: "nat \<Rightarrow> string" where
  "escape_code_point n =
     (if n = 0x22 then [CHR 0x5C, CHR 0x22]
      else if n = 0x5C then [CHR 0x5C, CHR 0x5C]
      else if n = 0x0A then [CHR 0x5C, CHR ''n'']
      else if n = 0x0D then [CHR 0x5C, CHR ''r'']
      else if n = 0x09 then [CHR 0x5C, CHR ''t'']
      else if n = 0x08 then [CHR 0x5C, CHR ''b'']
      else if n = 0x0C then [CHR 0x5C, CHR ''f'']
      else if 0x20 \<le> n \<and> n \<le> 0x7E then [char_of n]
      else if n < 0x10000 then [CHR 0x5C, CHR ''u''] @ hex4 n
      else [CHR 0x5C, CHR ''u''] @ hex4 (0xD800 + (n - 0x10000) div 0x400 mod 0x400)
           @ [CHR 0x5C, CHR ''u''] @ hex4 (0xDC00 + (n - 0x10000) mod 0x400))"

definition py_encode_basestring_ascii :: "string \<Rightarrow> string" where
  "py_encode_basestring_ascii s =
     [CHR 0x22] @ concat (map escape_code_point (utf8_code_points 0 0 s)) @ [CHR 0x22]"

text \<open>The string encoder that the option \<^verbatim>\<open>ensure_ascii\<close> selects.\<close>

definition encode_str :: "bool \<Rightarrow> string \<Rightarrow> string" where
  "encode_str ensure_ascii s =
     (if ensure_ascii then py_encode_basestring_ascii s else py_encode_basestring s)"

text \<open>\<^verbatim>\<open>int.__repr__\<close>: decimal digits, with a sign for a negative number.\<close>

fun nat_repr :: "nat \<Rightarrow> string" where
  "nat_repr n =
     (if n < 10 then [''0123456789'' ! n]
      else nat_repr (n div 10) @ [''0123456789'' ! (n mod 10)])"

declare nat_repr.simps [simp del]

definition int_repr :: "int \<Rightarrow> string" where
  "int_repr i = (if i < 0 then CHR ''-'' # nat_repr (nat (- i)) else nat_repr (nat i))"

text \<open>A newline and the indentation of a nesting level.\<close>

definition newline_indent :: "nat \<Rightarrow> nat \<Rightarrow> string" where
  "newline_indent indent level = CHR 0x0A # replicate (indent * level) CHR '' ''"

text \<open>
  The encoder with an indent: an empty container is \<^verbatim>\<open>[]\<close> or \<^verbatim>\<open>{}\<close>; otherwise each
  item is on a line of its own, one level deeper, items separated by a comma, a key and its
  value by a colon and a space. \<open>float_repr\<close> is \<^verbatim>\<open>float.__repr__\<close>.
\<close>

fun json_encode ::
  "('f \<Rightarrow> string) \<Rightarrow> bool \<Rightarrow> nat \<Rightarrow> nat \<Rightarrow> 'f py_value \<Rightarrow> string" where
  "json_encode float_repr ensure_ascii indent level (PStr s) = encode_str ensure_ascii s"
| "json_encode float_repr ensure_ascii indent level (PInt i) = int_repr i"
| "json_encode float_repr ensure_ascii indent level (PFloat x) = float_repr x"
| "json_encode float_repr ensure_ascii indent level (PList []) = ''[]''"
| "json_encode float_repr ensure_ascii indent level (PList (v # vs)) =
     ''['' @ newline_indent indent (level + 1)
     @ py_join ('','' @ newline_indent indent (level + 1))
         (map (json_encode float_repr ensure_ascii indent (level + 1)) (v # vs))
     @ newline_indent indent level @ '']''"
| "json_encode float_repr ensure_ascii indent level (PDict []) = ''{}''"
| "json_encode float_repr ensure_ascii indent level (PDict (kv # kvs)) =
     ''{'' @ newline_indent indent (level + 1)
     @ py_join ('','' @ newline_indent indent (level + 1))
         (map (\<lambda>(k, v). encode_str ensure_ascii k @ '': ''
                          @ json_encode float_repr ensure_ascii indent (level + 1) v)
              (kv # kvs))
     @ newline_indent indent level @ ''}''"

text \<open>\<^verbatim>\<open>json.dumps(obj, ensure_ascii=..., indent=...)\<close>, for an indent that is a number.\<close>

definition json_dumps :: "('f \<Rightarrow> string) \<Rightarrow> bool \<Rightarrow> nat \<Rightarrow> 'f py_value \<Rightarrow> string" where
  "json_dumps float_repr ensure_ascii indent obj =
     json_encode float_repr ensure_ascii indent 0 obj"

section \<open>The script's entry point\<close>

text \<open>
  The block under \<^verbatim>\<open>if __name__ == "__main__"\<close>, from \<^verbatim>\<open>sys.argv\<close> to the exit status
  and the final state of the process.
\<close>

definition main ::
  "('f \<Rightarrow> string) \<Rightarrow> ('m, 'f) faster_whisper \<Rightarrow> string list \<Rightarrow> nat \<times> 'm process" where
  "main float_repr lib argv =
     (if length argv < 2
      then (1, print_stderr ''Usage: python transcribe-local.py <audio_file> [language]''
                 init_process)
      else
        (let audio_file = argv ! 1;
             language = (if length argv > 2 then argv ! 2 else ''ur'')
         in case transcribe_audio lib audio_file language init_process of
              (Inr result, st) \<Rightarrow>
                (0, print_stdout (json_dumps float_repr False 2 result) st)
            | (Inl e, st) \<Rightarrow> (1, print_stderr (''Error: '' @ str_of e) st)))"

section \<open>Notions used to state the properties\<close>

subsection \<open>Time order of segments\<close>

text \<open>
  \<^verbatim>\<open>d["start"] <= d["end"]\<close> for an entry of the output, and
  \<^verbatim>\<open>d["start"] <= d2["start"]\<close> for two of them. The comparison is the one of the type of
  floats, of which nothing is assumed.
\<close>

definition start_le_end :: "('f::ord) py_value \<Rightarrow> bool" where
  "start_le_end d =
     (case (dict_get d ''start'', dict_get d ''end'') of
        (Some (PFloat s), Some (PFloat e)) \<Rightarrow> s \<le> e
      | _ \<Rightarrow> False)"

definition start_le_start :: "('f::ord) py_value \<Rightarrow> 'f py_value \<Rightarrow> bool" where
  "start_le_start d d' =
     (case (dict_get d ''start'', dict_get d' ''start'') of
        (Some (PFloat s), Some (PFloat s')) \<Rightarrow> s \<le> s'
      | _ \<Rightarrow> False)"

text \<open>
  Every segment starts no later than it ends, and each segment starts no earlier than the
  one before it: for the output array, and for the segments of the library.
\<close>

definition output_in_time_order :: "('f::ord) py_value list \<Rightarrow> bool" where
  "output_in_time_order ds = (list_all start_le_end ds \<and> successively start_le_start ds)"

definition library_in_time_order :: "('f::ord) Segment list \<Rightarrow> bool" where
  "library_in_time_order ss =
     (list_all (\<lambda>s. seg_start s \<le> seg_end s) ss
      \<and> successively (\<lambda>s s'. seg_start s \<le> seg_start s') ss)"

subsection \<open>Calls into the library\<close>

text \<open>A call that carries the fixed configuration of the driver.\<close>

fun fixed_config_call :: "'m lib_call \<Rightarrow> bool" where
  "fixed_config_call (Call_WhisperModel model_size device compute_type) =
     (model_size = ''large-v3'' \<and> device = ''cpu'' \<and> compute_type = ''int8'')"
| "fixed_config_call (Call_transcribe model audio language beam_size word_timestamps) =
     (beam_size = 5 \<and> word_timestamps = False)"

fun is_transcribe_call :: "'m lib_call \<Rightarrow> bool" where
  "is_transcribe_call (Call_transcribe model audio language beam_size word_timestamps) = True"
| "is_transcribe_call (Call_WhisperModel model_size device compute_type) = False"

subsection \<open>The document of the output schema\<close>














subsection \<open>Stubs of the library, for concrete runs\<close>

text \<open>
  Two segments with times in seconds (the second text starts with a space, as the
  library's do), a library that constructs a model and returns a given generator, one that
  accepts only the language \<^verbatim>\<open>ur\<close>, and one whose \<^verbatim>\<open>transcribe\<close> raises.
\<close>

definition stub_segments :: "real segments_gen" where
  "stub_segments =
     Gen_Yield \<lparr>seg_id = 1, seg_start = 0, seg_end = 2.5, seg_text = ''ab''\<rparr>
       (Gen_Yield \<lparr>seg_id = 2, seg_start = 2.5, seg_end = 4, seg_text = '' cd''\<rparr> Gen_Stop)"

definition stub_library :: "real segments_gen \<Rightarrow> (unit, real) faster_whisper" where
  "stub_library g =
     \<lparr>WhisperModel = (\<lambda>model_size device compute_type. Inr ()),
      transcribe = (\<lambda>model audio language beam_size word_timestamps.
                      Inr (g, \<lparr>info_language = language, info_duration = 4\<rparr>))\<rparr>"

definition urdu_only_library :: "(unit, real) faster_whisper" where
  "urdu_only_library =
     \<lparr>WhisperModel = (\<lambda>model_size device compute_type. Inr ()),
      transcribe = (\<lambda>model audio language beam_size word_timestamps.
                      if language = ''ur''
                      then Inr (stub_segments, \<lparr>info_language = ''ur'', info_duration = 4\<rparr>)
                      else Inl (Exception ''unsupported language''))\<rparr>"

definition missing_file_library :: "(unit, real) faster_whisper" where
  "missing_file_library =
     \<lparr>WhisperModel = (\<lambda>model_size device compute_type. Inr ()),
      transcribe = (\<lambda>model audio language beam_size word_timestamps.
                      Inl (Exception ''No such file''))\<rparr>"

text \<open>
  A library that raises unless it is given the fixed configuration and the fixed decoding
  options, and that reports the language it was given.
\<close>

definition strict_library :: "(unit, real) faster_whisper" where
  "strict_library =
     \<lparr>WhisperModel = (\<lambda>model_size device compute_type.
                        if model_size = ''large-v3'' \<and> device = ''cpu'' \<and> compute_type = ''int8''
                        then Inr ()
                        else Inl (Exception ''unexpected configuration'')),
      transcribe = (\<lambda>model audio language beam_size word_timestamps.
                      if beam_size = 5 \<and> \<not> word_timestamps
                      then Inr (Gen_Stop, \<lparr>info_language = language, info_duration = 4\<rparr>)
                      else Inl (Exception ''unexpected options''))\<rparr>"


definition stub_float_repr :: "real \<Rightarrow> string" where
  "stub_float_repr x = (if x = 0 then ''0.0'' else if x = 4 then ''4.0'' else ''2.5'')"

section \<open>What \<^verbatim>\<open>transcribe_audio\<close> returns and leaves behind\<close>

text \<open>The loop appends, for each segment yielded, its entry and its text, in order.\<close>

lemma consume_eq:
  "consume g segment_list full_text =
     (case gen_raises g of
        Some e \<Rightarrow> Inl e
      | None \<Rightarrow> Inr (segment_list @ map segment_entry (yielded g),
                       full_text @ map seg_text (yielded g)))"
  by (induction g arbitrary: segment_list full_text) (simp_all split: option.split)

lemma transcribe_audio_result:
  "fst (transcribe_audio lib audio_path language st) =
     (case WhisperModel lib ''large-v3'' ''cpu'' ''int8'' of
        Inl e \<Rightarrow> Inl e
      | Inr model \<Rightarrow>
          (case transcribe lib model audio_path language 5 False of
             Inl e \<Rightarrow> Inl e
           | Inr (g, info) \<Rightarrow>
               (case gen_raises g of
                  Some e \<Rightarrow> Inl e
                | None \<Rightarrow>
                    Inr (PDict [(''language'', PStr (info_language info)),
                                (''duration'', PFloat (info_duration info)),
                                (''text'', PStr (py_join '' '' (map seg_text (yielded g)))),
                                (''segments'', PList (map segment_entry (yielded g)))]))))"
  by (simp add: transcribe_audio_def consume_eq Let_def split: sum.split prod.split option.split)

lemma transcribe_audio_state:
  "snd (transcribe_audio lib audio_path language st) =
     (case WhisperModel lib ''large-v3'' ''cpu'' ''int8'' of
        Inl e \<Rightarrow>
          st\<lparr>stderr := stderr st @ [''Loading Whisper model...''],
             calls := calls st @ [Call_WhisperModel ''large-v3'' ''cpu'' ''int8'']\<rparr>
      | Inr model \<Rightarrow>
          st\<lparr>stderr := stderr st @ [''Loading Whisper model...'', ''Transcribing: '' @ audio_path],
             calls := calls st @ [Call_WhisperModel ''large-v3'' ''cpu'' ''int8'',
                                  Call_transcribe model audio_path language 5 False]\<rparr>)"
  by (simp add: transcribe_audio_def Let_def print_stderr_def log_call_def
           split: sum.split prod.split)

lemma transcribe_audio_success:
  assumes "fst (transcribe_audio lib audio_path language st) = Inr result"
  shows "\<exists>model g info.
           WhisperModel lib ''large-v3'' ''cpu'' ''int8'' = Inr model
         \<and> transcribe lib model audio_path language 5 False = Inr (g, info)
         \<and> gen_raises g = None
         \<and> result = PDict [(''language'', PStr (info_language info)),
                            (''duration'', PFloat (info_duration info)),
                            (''text'', PStr (py_join '' '' (map seg_text (yielded g)))),
                            (''segments'', PList (map segment_entry (yielded g)))]"
  using assms unfolding transcribe_audio_result
  by (auto split: sum.splits prod.splits option.splits)

lemma transcribe_audio_stdout:
  "stdout (snd (transcribe_audio lib audio_path language init_process)) = []"
  unfolding transcribe_audio_state by (simp add: init_process_def split: sum.split)

lemma time_order_segment_entries:
  "output_in_time_order (map segment_entry ss) = library_in_time_order ss"
proof -
  have "start_le_end (segment_entry s) = (seg_start s \<le> seg_end s)" for s :: "'a Segment"
    by (simp add: start_le_end_def segment_entry_def)
  moreover have "start_le_start (segment_entry s) (segment_entry s')
                 = (seg_start s \<le> seg_start s')" for s s' :: "'a Segment"
    by (simp add: start_le_start_def segment_entry_def)
  ultimately show ?thesis
    by (simp add: output_in_time_order_def library_in_time_order_def list.pred_map
          successively_map comp_def)
qed

section \<open>What the entry point does with it\<close>

lemma main_run:
  assumes "2 \<le> length argv"
  shows "main float_repr lib argv =
           (case transcribe_audio lib (argv ! 1) (if 2 < length argv then argv ! 2 else ''ur'')
                   init_process of
              (Inr result, st) \<Rightarrow> (0, print_stdout (json_dumps float_repr False 2 result) st)
            | (Inl e, st) \<Rightarrow> (1, print_stderr (''Error: '' @ str_of e) st))"
  using assms by (simp add: main_def Let_def)


lemma main_failure:
  assumes "2 \<le> length argv"
    and "fst (transcribe_audio lib (argv ! 1) (if 2 < length argv then argv ! 2 else ''ur'')
               init_process) = Inl e"
  shows "main float_repr lib argv =
           (1, print_stderr (''Error: '' @ str_of e)
                 (snd (transcribe_audio lib (argv ! 1)
                         (if 2 < length argv then argv ! 2 else ''ur'') init_process)))"
  using assms(2) unfolding main_run [OF assms(1)]
  by (cases "transcribe_audio lib (argv ! 1) (if 2 < length argv then argv ! 2 else ''ur'')
               init_process") simp

lemma main_calls:
  "calls (snd (main float_repr lib argv)) =
     (if length argv < 2 then []
      else calls (snd (transcribe_audio lib (argv ! 1)
                         (if 2 < length argv then argv ! 2 else ''ur'') init_process)))"
  by (simp add: main_def Let_def print_stderr_def print_stdout_def init_process_def
           split: prod.split sum.split)

lemma main_status:
  assumes "2 \<le> length argv"
  shows "fst (main float_repr lib argv) =
           (case fst (transcribe_audio lib (argv ! 1)
                        (if 2 < length argv then argv ! 2 else ''ur'') init_process) of
              Inr result \<Rightarrow> 0
            | Inl e \<Rightarrow> 1)"
  unfolding main_run [OF assms]
  by (simp split: prod.split sum.split)

lemma main_stdout:
  assumes "2 \<le> length argv"
  shows "stdout (snd (main float_repr lib argv)) =
           (case fst (transcribe_audio lib (argv ! 1)
                        (if 2 < length argv then argv ! 2 else ''ur'') init_process) of
              Inr result \<Rightarrow> [json_dumps float_repr False 2 result]
            | Inl e \<Rightarrow> [])"
proof (cases "transcribe_audio lib (argv ! 1) (if 2 < length argv then argv ! 2 else ''ur'')
               init_process")
  case (Pair r st)
  have "stdout (snd (transcribe_audio lib (argv ! 1)
                      (if 2 < length argv then argv ! 2 else ''ur'') init_process)) = []"
    by (rule transcribe_audio_stdout)
  then have "stdout st = []"
    unfolding Pair by simp
  then show ?thesis
    unfolding main_run [OF assms] Pair
    by (simp add: print_stdout_def print_stderr_def split: sum.split)
qed

text \<open>
  With the audio file given and the model constructed, the exit status and the standard
  output are those for the answer of \<^verbatim>\<open>transcribe\<close> on the audio file and the language, with
  beam size 5 and word timestamps off.
\<close>

lemma main_shows_status:
  assumes "2 \<le> length argv"
    and "WhisperModel lib ''large-v3'' ''cpu'' ''int8'' = Inr model"
  shows "fst (main float_repr lib argv) =
           (case transcribe lib model (argv ! 1)
                   (if 2 < length argv then argv ! 2 else ''ur'') 5 False of
              Inl e \<Rightarrow> 1
            | Inr (g, info) \<Rightarrow> (case gen_raises g of Some e \<Rightarrow> 1 | None \<Rightarrow> 0))"
  unfolding main_status [OF assms(1)] transcribe_audio_result assms(2)
  by (simp split: sum.split prod.split option.split)

lemma main_shows_stdout:
  assumes "2 \<le> length argv"
    and "WhisperModel lib ''large-v3'' ''cpu'' ''int8'' = Inr model"
  shows "stdout (snd (main float_repr lib argv)) =
           (case transcribe lib model (argv ! 1)
                   (if 2 < length argv then argv ! 2 else ''ur'') 5 False of
              Inl e \<Rightarrow> []
            | Inr (g, info) \<Rightarrow>
                (case gen_raises g of
                   Some e \<Rightarrow> []
                 | None \<Rightarrow>
                     [json_dumps float_repr False 2
                        (PDict [(''language'', PStr (info_language info)),
                                (''duration'', PFloat (info_duration info)),
                                (''text'', PStr (py_join '' '' (map seg_text (yielded g)))),
                                (''segments'', PList (map segment_entry (yielded g)))])]))"
  unfolding main_stdout [OF assms(1)] transcribe_audio_result assms(2)
  by (simp split: sum.split prod.split option.split)

lemma main_shows_no_model:
  assumes "2 \<le> length argv"
    and "WhisperModel lib ''large-v3'' ''cpu'' ''int8'' = Inl e"
  shows "fst (main float_repr lib argv) = 1" "stdout (snd (main float_repr lib argv)) = []"
  unfolding main_status [OF assms(1)] main_stdout [OF assms(1)] transcribe_audio_result assms(2)
  by simp_all

section \<open>The layout of the printed document\<close>













text \<open>
  The option matters: the Arabic letter alef, two bytes in UTF-8, is printed as it is
  with \<^verbatim>\<open>ensure_ascii=False\<close> and as an escape with \<^verbatim>\<open>ensure_ascii=True\<close>.
\<close>

lemma encode_str_alef:
  \<open>encode_str False [CHR 0xD8, CHR 0xA7] = ''"'' @ [CHR 0xD8, CHR 0xA7] @ ''"''\<close>
  \<open>encode_str True [CHR 0xD8, CHR 0xA7] = ''"'' @ [CHR 0x5C] @ ''u0627"''\<close>
  by (simp_all add: encode_str_def py_encode_basestring_def escape_char_def
        py_encode_basestring_ascii_def escape_code_point_def hex4_def hex_digit_def)
















section \<open>A concrete run\<close>

lemma stub_run:
  "fst (transcribe_audio (stub_library stub_segments) p l st) =
     Inr (PDict [(''language'', PStr l), (''duration'', PFloat 4),
                 (''text'', PStr ''ab  cd''),
                 (''segments'',
                  PList [PDict [(''id'', PInt 1), (''start'', PFloat 0), (''end'', PFloat 2.5),
                                (''text'', PStr ''ab'')],
                         PDict [(''id'', PInt 2), (''start'', PFloat 2.5), (''end'', PFloat 4),
                                (''text'', PStr '' cd'')]])])"
  by (simp add: transcribe_audio_result stub_library_def stub_segments_def segment_entry_def)

section \<open>The text of a transcription\<close>



section \<open>Failures at run time\<close>

text \<open>
  C2: when the audio-file argument is present and the library raises an exception, from
  the construction of the model, from \<^verbatim>\<open>transcribe\<close>, or while the segments are
  iterated, the program exits with status 1 and prints nothing to standard output; the
  diagnostic stream holds the progress lines printed up to there and then the one line
  \<^verbatim>\<open>Error: \<close> followed by the message of the exception.
\<close>

theorem runtime_failure:
  assumes "2 \<le> length argv"
    and "WhisperModel lib ''large-v3'' ''cpu'' ''int8'' = Inl e
         \<or> (\<exists>model. WhisperModel lib ''large-v3'' ''cpu'' ''int8'' = Inr model
               \<and> (transcribe lib model (argv ! 1) (if 2 < length argv then argv ! 2 else ''ur'')
                     5 False = Inl e
                  \<or> (\<exists>g info. transcribe lib model (argv ! 1)
                                 (if 2 < length argv then argv ! 2 else ''ur'') 5 False
                               = Inr (g, info)
                              \<and> gen_raises g = Some e)))"
  shows "fst (main float_repr lib argv) = 1
       \<and> stdout (snd (main float_repr lib argv)) = []
       \<and> (stderr (snd (main float_repr lib argv)) =
            [''Loading Whisper model...'', ''Error: '' @ str_of e]
          \<or> stderr (snd (main float_repr lib argv)) =
            [''Loading Whisper model...'', ''Transcribing: '' @ argv ! 1,
             ''Error: '' @ str_of e])"
proof -
  let ?language = "if 2 < length argv then argv ! 2 else ''ur''"
  let ?run = "transcribe_audio lib (argv ! 1) ?language init_process"
  have raised: "fst ?run = Inl e"
    using assms(2) unfolding transcribe_audio_result by auto
  have m: "main float_repr lib argv = (1, print_stderr (''Error: '' @ str_of e) (snd ?run))"
    using main_failure [OF assms(1) raised] .
  have "stdout (snd ?run) = []"
    unfolding transcribe_audio_state by (simp add: init_process_def split: sum.split)
  moreover have "stderr (snd ?run) = [''Loading Whisper model...'']
               \<or> stderr (snd ?run) = [''Loading Whisper model...'', ''Transcribing: '' @ argv ! 1]"
    unfolding transcribe_audio_state by (simp add: init_process_def split: sum.split)
  ultimately show ?thesis
    unfolding m by (auto simp: print_stderr_def)
qed

theorem runtime_failure_witness:
  "2 \<le> length [''transcribe-local.py'', ''missing.wav'']
   \<and> transcribe missing_file_library () ''missing.wav'' ''ur'' 5 False
       = Inl (Exception ''No such file'')
   \<and> main stub_float_repr missing_file_library [''transcribe-local.py'', ''missing.wav''] =
       (1, \<lparr>stdout = [],
            stderr = [''Loading Whisper model...'', ''Transcribing: missing.wav'',
                      ''Error: No such file''],
            calls = [Call_WhisperModel ''large-v3'' ''cpu'' ''int8'',
                     Call_transcribe () ''missing.wav'' ''ur'' 5 False]\<rparr>)"
  using runtime_failure [of "[''transcribe-local.py'', ''missing.wav'']" missing_file_library
      "Exception ''No such file''" stub_float_repr]
  by (simp add: missing_file_library_def main_def transcribe_audio_def init_process_def
        print_stderr_def log_call_def Let_def)

section \<open>Usage errors\<close>

text \<open>
  C3: when the audio-file argument is missing (fewer than two entries in \<^verbatim>\<open>argv\<close>), the
  program prints the usage message to the diagnostic stream and nothing else, prints nothing
  to standard output, makes no call into the model library, and exits with status 1.
\<close>

theorem usage_error:
  "length argv < 2 \<Longrightarrow>
   main float_repr lib argv =
     (1, \<lparr>stdout = [],
          stderr = [''Usage: python transcribe-local.py <audio_file> [language]''],
          calls = []\<rparr>)"
  by (simp add: main_def print_stderr_def init_process_def)

theorem usage_error_witness:
  "length [''transcribe-local.py''] < 2 \<and>
   main stub_float_repr (stub_library stub_segments) [''transcribe-local.py''] =
     (1, \<lparr>stdout = [],
          stderr = [''Usage: python transcribe-local.py <audio_file> [language]''],
          calls = []\<rparr>)"
  using usage_error [of "[''transcribe-local.py'']" stub_float_repr "stub_library stub_segments"]
  by simp

section \<open>The default language\<close>

text \<open>
  C4: when the language argument is omitted (at most two entries in \<^verbatim>\<open>argv\<close>), the calls
  of \<^verbatim>\<open>transcribe\<close> that the program makes are: none when the audio file is missing as
  well or the model cannot be constructed, and otherwise exactly one, on the audio file,
  with the language \<^verbatim>\<open>ur\<close>. The library is applied so: with the audio file given and the
  model constructed, the exit status and the standard output of the run are those for what
  the library answers to \<^verbatim>\<open>transcribe\<close> on the audio file with the language \<^verbatim>\<open>ur\<close>, whatever
  it would answer for another language.
\<close>

theorem default_language:
  assumes "length argv \<le> 2"
  shows "filter is_transcribe_call (calls (snd (main float_repr lib argv))) =
           (if length argv < 2 then []
            else case WhisperModel lib ''large-v3'' ''cpu'' ''int8'' of
                   Inl e \<Rightarrow> []
                 | Inr model \<Rightarrow> [Call_transcribe model (argv ! 1) ''ur'' 5 False])
       \<and> (\<forall>model.
            length argv = 2 \<and> WhisperModel lib ''large-v3'' ''cpu'' ''int8'' = Inr model \<longrightarrow>
              fst (main float_repr lib argv) =
                (case transcribe lib model (argv ! 1) ''ur'' 5 False of
                   Inl e \<Rightarrow> 1
                 | Inr (g, info) \<Rightarrow> (case gen_raises g of Some e \<Rightarrow> 1 | None \<Rightarrow> 0))
            \<and> stdout (snd (main float_repr lib argv)) =
                (case transcribe lib model (argv ! 1) ''ur'' 5 False of
                   Inl e \<Rightarrow> []
                 | Inr (g, info) \<Rightarrow>
                     (case gen_raises g of
                        Some e \<Rightarrow> []
                      | None \<Rightarrow>
                          [json_dumps float_repr False 2
                             (PDict [(''language'', PStr (info_language info)),
                                     (''duration'', PFloat (info_duration info)),
                                     (''text'',
                                      PStr (py_join '' '' (map seg_text (yielded g)))),
                                     (''segments'',
                                      PList (map segment_entry (yielded g)))])])))"
proof -
  have "filter is_transcribe_call (calls (snd (main float_repr lib argv))) =
           (if length argv < 2 then []
            else case WhisperModel lib ''large-v3'' ''cpu'' ''int8'' of
                   Inl e \<Rightarrow> []
                 | Inr model \<Rightarrow> [Call_transcribe model (argv ! 1) ''ur'' 5 False])"
    using assms unfolding main_calls transcribe_audio_state
    by (simp add: init_process_def split: sum.split)
  moreover have "fst (main float_repr lib argv) =
                (case transcribe lib model (argv ! 1) ''ur'' 5 False of
                   Inl e \<Rightarrow> 1
                 | Inr (g, info) \<Rightarrow> (case gen_raises g of Some e \<Rightarrow> 1 | None \<Rightarrow> 0))"
    if "length argv = 2" "WhisperModel lib ''large-v3'' ''cpu'' ''int8'' = Inr model" for model
    using main_shows_status [of argv lib model float_repr] that by simp
  moreover have "stdout (snd (main float_repr lib argv)) =
                (case transcribe lib model (argv ! 1) ''ur'' 5 False of
                   Inl e \<Rightarrow> []
                 | Inr (g, info) \<Rightarrow>
                     (case gen_raises g of
                        Some e \<Rightarrow> []
                      | None \<Rightarrow>
                          [json_dumps float_repr False 2
                             (PDict [(''language'', PStr (info_language info)),
                                     (''duration'', PFloat (info_duration info)),
                                     (''text'',
                                      PStr (py_join '' '' (map seg_text (yielded g)))),
                                     (''segments'',
                                      PList (map segment_entry (yielded g)))])]))"
    if "length argv = 2" "WhisperModel lib ''large-v3'' ''cpu'' ''int8'' = Inr model" for model
    using main_shows_stdout [of argv lib model float_repr] that by simp
  ultimately show ?thesis by blast
qed

text \<open>
  A run without the language argument against a library that raises for every language
  but \<^verbatim>\<open>ur\<close>: it exits with status 0 and prints the transcription.
\<close>

theorem default_language_witness:
  "length [''transcribe-local.py'', ''a.wav''] \<le> 2
   \<and> WhisperModel urdu_only_library ''large-v3'' ''cpu'' ''int8'' = Inr ()
   \<and> transcribe urdu_only_library () ''a.wav'' ''en'' 5 False
       = Inl (Exception ''unsupported language'')
   \<and> filter is_transcribe_call
        (calls (snd (main stub_float_repr urdu_only_library
                       [''transcribe-local.py'', ''a.wav'']))) =
       [Call_transcribe () ''a.wav'' ''ur'' 5 False]
   \<and> fst (main stub_float_repr urdu_only_library [''transcribe-local.py'', ''a.wav'']) = 0
   \<and> stdout (snd (main stub_float_repr urdu_only_library
                     [''transcribe-local.py'', ''a.wav''])) =
       [json_dumps stub_float_repr False 2
          (PDict [(''language'', PStr ''ur''), (''duration'', PFloat 4),
                  (''text'', PStr ''ab  cd''),
                  (''segments'', PList (map segment_entry (yielded stub_segments)))])]"
  using default_language [of "[''transcribe-local.py'', ''a.wav'']" stub_float_repr
      urdu_only_library]
  by (simp add: urdu_only_library_def stub_segments_def)

section \<open>Time order\<close>

text \<open>
  C5: when \<^verbatim>\<open>transcribe_audio\<close> returns, the segments of its result are in time order
  (each starts no later than it ends, and no earlier than the one before it) exactly when
  the segments that the library yielded are: the driver inherits the order from the library
  and does not enforce it.
\<close>

theorem time_order_inherited:
  fixes lib :: "('m, 'f::ord) faster_whisper"
  assumes "fst (transcribe_audio lib audio_path language st) = Inr result"
  shows "\<exists>model g info out.
           WhisperModel lib ''large-v3'' ''cpu'' ''int8'' = Inr model
         \<and> transcribe lib model audio_path language 5 False = Inr (g, info)
         \<and> dict_get result ''segments'' = Some (PList out)
         \<and> output_in_time_order out = library_in_time_order (yielded g)"
proof -
  from transcribe_audio_success [OF assms] obtain model g info where
    "WhisperModel lib ''large-v3'' ''cpu'' ''int8'' = Inr model" and
    "transcribe lib model audio_path language 5 False = Inr (g, info)" and
    "result = PDict [(''language'', PStr (info_language info)),
                     (''duration'', PFloat (info_duration info)),
                     (''text'', PStr (py_join '' '' (map seg_text (yielded g)))),
                     (''segments'', PList (map segment_entry (yielded g)))]"
    by blast
  moreover from this(3)
  have "dict_get result ''segments'' = Some (PList (map segment_entry (yielded g)))"
    by simp
  ultimately show ?thesis
    using time_order_segment_entries [of "yielded g"] by blast
qed

theorem time_order_inherited_witness:
  "\<exists>result. fst (transcribe_audio (stub_library stub_segments) ''a.wav'' ''ur'' init_process)
             = Inr result
    \<and> library_in_time_order (yielded stub_segments)
    \<and> (\<exists>model g info out.
           WhisperModel (stub_library stub_segments) ''large-v3'' ''cpu'' ''int8'' = Inr model
         \<and> transcribe (stub_library stub_segments) model ''a.wav'' ''ur'' 5 False = Inr (g, info)
         \<and> dict_get result ''segments'' = Some (PList out)
         \<and> output_in_time_order out = library_in_time_order (yielded g))"
  using time_order_inherited [OF stub_run [of "''a.wav''" "''ur''" init_process]]
    stub_run [of "''a.wav''" "''ur''" init_process]
  by (simp add: library_in_time_order_def stub_segments_def)

section \<open>The fixed configuration\<close>

text \<open>
  C6: whatever the command line and the library, every construction of the model that the
  program makes is for \<^verbatim>\<open>large-v3\<close> on \<^verbatim>\<open>cpu\<close> with \<^verbatim>\<open>int8\<close>, and every call of
  \<^verbatim>\<open>transcribe\<close> has beam size 5 and word timestamps off. When the audio-file argument
  is present, the program constructs the model so, and then, if the construction returns,
  calls \<^verbatim>\<open>transcribe\<close> once, so. The library is applied so: the exit status and the
  standard output of the run are those for what the library answers to the constructor on
  \<^verbatim>\<open>large-v3\<close>, \<^verbatim>\<open>cpu\<close>, \<^verbatim>\<open>int8\<close> and then to \<^verbatim>\<open>transcribe\<close> with beam size 5 and word
  timestamps off, whatever it would answer for another configuration or other options.
\<close>

theorem fixed_configuration:
  "list_all fixed_config_call (calls (snd (main float_repr lib argv)))
   \<and> (2 \<le> length argv \<longrightarrow>
        calls (snd (main float_repr lib argv)) =
          Call_WhisperModel ''large-v3'' ''cpu'' ''int8''
          # (case WhisperModel lib ''large-v3'' ''cpu'' ''int8'' of
               Inl e \<Rightarrow> []
             | Inr model \<Rightarrow>
                 [Call_transcribe model (argv ! 1)
                    (if 2 < length argv then argv ! 2 else ''ur'') 5 False])
      \<and> fst (main float_repr lib argv) =
          (case WhisperModel lib ''large-v3'' ''cpu'' ''int8'' of
             Inl e \<Rightarrow> 1
           | Inr model \<Rightarrow>
               (case transcribe lib model (argv ! 1)
                       (if 2 < length argv then argv ! 2 else ''ur'') 5 False of
                  Inl e \<Rightarrow> 1
                | Inr (g, info) \<Rightarrow> (case gen_raises g of Some e \<Rightarrow> 1 | None \<Rightarrow> 0)))
      \<and> stdout (snd (main float_repr lib argv)) =
          (case WhisperModel lib ''large-v3'' ''cpu'' ''int8'' of
             Inl e \<Rightarrow> []
           | Inr model \<Rightarrow>
               (case transcribe lib model (argv ! 1)
                       (if 2 < length argv then argv ! 2 else ''ur'') 5 False of
                  Inl e \<Rightarrow> []
                | Inr (g, info) \<Rightarrow>
                    (case gen_raises g of
                       Some e \<Rightarrow> []
                     | None \<Rightarrow>
                         [json_dumps float_repr False 2
                            (PDict [(''language'', PStr (info_language info)),
                                    (''duration'', PFloat (info_duration info)),
                                    (''text'',
                                     PStr (py_join '' '' (map seg_text (yielded g)))),
                                    (''segments'',
                                     PList (map segment_entry (yielded g)))])]))))"
proof -
  have log: "list_all fixed_config_call (calls (snd (main float_repr lib argv)))
   \<and> (2 \<le> length argv \<longrightarrow>
        calls (snd (main float_repr lib argv)) =
          Call_WhisperModel ''large-v3'' ''cpu'' ''int8''
          # (case WhisperModel lib ''large-v3'' ''cpu'' ''int8'' of
               Inl e \<Rightarrow> []
             | Inr model \<Rightarrow>
                 [Call_transcribe model (argv ! 1)
                    (if 2 < length argv then argv ! 2 else ''ur'') 5 False]))"
    unfolding main_calls transcribe_audio_state
    by (simp add: init_process_def split: sum.split)
  have status: "fst (main float_repr lib argv) =
          (case WhisperModel lib ''large-v3'' ''cpu'' ''int8'' of
             Inl e \<Rightarrow> 1
           | Inr model \<Rightarrow>
               (case transcribe lib model (argv ! 1)
                       (if 2 < length argv then argv ! 2 else ''ur'') 5 False of
                  Inl e \<Rightarrow> 1
                | Inr (g, info) \<Rightarrow> (case gen_raises g of Some e \<Rightarrow> 1 | None \<Rightarrow> 0)))"
    if "2 \<le> length argv"
  proof (cases "WhisperModel lib ''large-v3'' ''cpu'' ''int8''")
    case (Inl e)
    with main_shows_no_model(1) [OF that Inl] show ?thesis by simp
  next
    case (Inr model)
    with main_shows_status [OF that Inr] show ?thesis by simp
  qed
  have out: "stdout (snd (main float_repr lib argv)) =
          (case WhisperModel lib ''large-v3'' ''cpu'' ''int8'' of
             Inl e \<Rightarrow> []
           | Inr model \<Rightarrow>
               (case transcribe lib model (argv ! 1)
                       (if 2 < length argv then argv ! 2 else ''ur'') 5 False of
                  Inl e \<Rightarrow> []
                | Inr (g, info) \<Rightarrow>
                    (case gen_raises g of
                       Some e \<Rightarrow> []
                     | None \<Rightarrow>
                         [json_dumps float_repr False 2
                            (PDict [(''language'', PStr (info_language info)),
                                    (''duration'', PFloat (info_duration info)),
                                    (''text'',
                                     PStr (py_join '' '' (map seg_text (yielded g)))),
                                    (''segments'',
                                     PList (map segment_entry (yielded g)))])])))"
    if "2 \<le> length argv"
  proof (cases "WhisperModel lib ''large-v3'' ''cpu'' ''int8''")
    case (Inl e)
    with main_shows_no_model(2) [OF that Inl] show ?thesis by simp
  next
    case (Inr model)
    with main_shows_stdout [OF that Inr] show ?thesis by simp
  qed
  from log status out show ?thesis by blast
qed

text \<open>
  A run against a library that raises for any configuration or options but the fixed
  ones: it exits with status 0 and prints the (empty) transcription.
\<close>

theorem fixed_configuration_witness:
  "2 \<le> length [''transcribe-local.py'', ''a.wav'', ''en'']
   \<and> WhisperModel strict_library ''large-v2'' ''cpu'' ''int8''
       = Inl (Exception ''unexpected configuration'')
   \<and> transcribe strict_library () ''a.wav'' ''en'' 1 True
       = Inl (Exception ''unexpected options'')
   \<and> list_all fixed_config_call
        (calls (snd (main stub_float_repr strict_library
                       [''transcribe-local.py'', ''a.wav'', ''en''])))
   \<and> calls (snd (main stub_float_repr strict_library
                    [''transcribe-local.py'', ''a.wav'', ''en''])) =
       [Call_WhisperModel ''large-v3'' ''cpu'' ''int8'',
        Call_transcribe () ''a.wav'' ''en'' 5 False]
   \<and> fst (main stub_float_repr strict_library [''transcribe-local.py'', ''a.wav'', ''en'']) = 0
   \<and> stdout (snd (main stub_float_repr strict_library
                     [''transcribe-local.py'', ''a.wav'', ''en''])) =
       [json_dumps stub_float_repr False 2
          (PDict [(''language'', PStr ''en''), (''duration'', PFloat 4),
                  (''text'', PStr []), (''segments'', PList [])])]"
  using fixed_configuration [of stub_float_repr strict_library
      "[''transcribe-local.py'', ''a.wav'', ''en'']"]
  by (simp add: strict_library_def)

section \<open>Segments are copied\<close>

text \<open>
  C7: when \<^verbatim>\<open>transcribe_audio\<close> returns, the \<^verbatim>\<open>segments\<close> array of its result holds,
  for each segment that the library yielded and in the order in which it yielded them, a
  dictionary with the segment's own \<^verbatim>\<open>id\<close>, \<^verbatim>\<open>start\<close>, \<^verbatim>\<open>end\<close> and \<^verbatim>\<open>text\<close>.
\<close>

theorem segments_copied_verbatim:
  assumes "fst (transcribe_audio lib audio_path language st) = Inr result"
  shows "\<exists>model g info.
           WhisperModel lib ''large-v3'' ''cpu'' ''int8'' = Inr model
         \<and> transcribe lib model audio_path language 5 False = Inr (g, info)
         \<and> dict_get result ''segments'' =
             Some (PList (map (\<lambda>s. PDict [(''id'', PInt (seg_id s)),
                                          (''start'', PFloat (seg_start s)),
                                          (''end'', PFloat (seg_end s)),
                                          (''text'', PStr (seg_text s))])
                              (yielded g)))"
proof -
  from transcribe_audio_success [OF assms] obtain model g info where
    "WhisperModel lib ''large-v3'' ''cpu'' ''int8'' = Inr model" and
    "transcribe lib model audio_path language 5 False = Inr (g, info)" and
    "result = PDict [(''language'', PStr (info_language info)),
                     (''duration'', PFloat (info_duration info)),
                     (''text'', PStr (py_join '' '' (map seg_text (yielded g)))),
                     (''segments'', PList (map segment_entry (yielded g)))]"
    by blast
  moreover from this(3) have "dict_get result ''segments'' =
             Some (PList (map (\<lambda>s. PDict [(''id'', PInt (seg_id s)),
                                          (''start'', PFloat (seg_start s)),
                                          (''end'', PFloat (seg_end s)),
                                          (''text'', PStr (seg_text s))])
                              (yielded g)))"
    by (simp add: segment_entry_def)
  ultimately show ?thesis by blast
qed

theorem segments_copied_verbatim_witness:
  "\<exists>result. fst (transcribe_audio (stub_library stub_segments) ''a.wav'' ''ur'' init_process)
             = Inr result
    \<and> (\<exists>model g info.
           WhisperModel (stub_library stub_segments) ''large-v3'' ''cpu'' ''int8'' = Inr model
         \<and> transcribe (stub_library stub_segments) model ''a.wav'' ''ur'' 5 False = Inr (g, info)
         \<and> dict_get result ''segments'' =
             Some (PList (map (\<lambda>s. PDict [(''id'', PInt (seg_id s)),
                                          (''start'', PFloat (seg_start s)),
                                          (''end'', PFloat (seg_end s)),
                                          (''text'', PStr (seg_text s))])
                              (yielded g))))"
  using segments_copied_verbatim [OF stub_run [of "''a.wav''" "''ur''" init_process]]
    stub_run [of "''a.wav''" "''ur''" init_process]
  by simp

section \<open>The output of a successful run\<close>



section \<open>Determinism\<close>

text \<open>
  C9: two runs on the same audio path and language, against libraries that both construct
  a model and both return the same sequence of segments and the same summary info, give the
  same result of \<^verbatim>\<open>transcribe_audio\<close> (a value or an exception), the same exit status and
  the same standard output.
\<close>

theorem driver_deterministic:
  assumes "WhisperModel lib1 ''large-v3'' ''cpu'' ''int8'' = Inr model1"
    and "WhisperModel lib2 ''large-v3'' ''cpu'' ''int8'' = Inr model2"
    and "transcribe lib1 model1 audio_path language 5 False = Inr (g, info)"
    and "transcribe lib2 model2 audio_path language 5 False = Inr (g, info)"
  shows "fst (transcribe_audio lib1 audio_path language st1)
         = fst (transcribe_audio lib2 audio_path language st2)
       \<and> fst (main float_repr lib1 [prog, audio_path, language])
         = fst (main float_repr lib2 [prog, audio_path, language])
       \<and> stdout (snd (main float_repr lib1 [prog, audio_path, language]))
         = stdout (snd (main float_repr lib2 [prog, audio_path, language]))"
proof -
  have same: "fst (transcribe_audio lib1 audio_path language st)
              = fst (transcribe_audio lib2 audio_path language st')" for st st'
    using assms by (simp add: transcribe_audio_result)
  have len: "2 \<le> length [prog, audio_path, language]"
    by simp
  show ?thesis
    using same [of st1 st2] same [of init_process init_process]
    by (simp add: main_status [OF len] main_stdout [OF len])
qed

theorem driver_deterministic_witness:
  "WhisperModel (stub_library stub_segments) ''large-v3'' ''cpu'' ''int8'' = Inr ()
   \<and> WhisperModel urdu_only_library ''large-v3'' ''cpu'' ''int8'' = Inr ()
   \<and> transcribe (stub_library stub_segments) () ''a.wav'' ''ur'' 5 False
       = Inr (stub_segments, \<lparr>info_language = ''ur'', info_duration = 4\<rparr>)
   \<and> transcribe urdu_only_library () ''a.wav'' ''ur'' 5 False
       = Inr (stub_segments, \<lparr>info_language = ''ur'', info_duration = 4\<rparr>)
   \<and> fst (transcribe_audio (stub_library stub_segments) ''a.wav'' ''ur'' init_process)
       = fst (transcribe_audio urdu_only_library ''a.wav'' ''ur''
                (print_stderr ''an earlier line'' init_process))
   \<and> fst (main stub_float_repr (stub_library stub_segments)
             [''transcribe-local.py'', ''a.wav'', ''ur''])
       = fst (main stub_float_repr urdu_only_library [''transcribe-local.py'', ''a.wav'', ''ur''])
   \<and> stdout (snd (main stub_float_repr (stub_library stub_segments)
                     [''transcribe-local.py'', ''a.wav'', ''ur'']))
       = stdout (snd (main stub_float_repr urdu_only_library
                        [''transcribe-local.py'', ''a.wav'', ''ur'']))"
  using driver_deterministic [of "stub_library stub_segments" "()" urdu_only_library
      "()" "''a.wav''" "''ur''" stub_segments "\<lparr>info_language = ''ur'', info_duration = 4\<rparr>"
      init_process "print_stderr ''an earlier line'' init_process" stub_float_repr
      "''transcribe-local.py''"]
  by (simp add: stub_library_def urdu_only_library_def)

section \<open>An empty transcription\<close>

text \<open>
  C10: when the library constructs the model and \<^verbatim>\<open>transcribe\<close> returns a sequence
  that yields no segment, \<^verbatim>\<open>transcribe_audio\<close> returns a result whose \<^verbatim>\<open>text\<close> is the empty
  string and whose \<^verbatim>\<open>segments\<close> is the empty array, with the \<^verbatim>\<open>language\<close> and the
  \<^verbatim>\<open>duration\<close> of the library's summary info.
\<close>

theorem empty_transcription:
  assumes "WhisperModel lib ''large-v3'' ''cpu'' ''int8'' = Inr model"
    and "transcribe lib model audio_path language 5 False = Inr (Gen_Stop, info)"
  shows "fst (transcribe_audio lib audio_path language st) =
           Inr (PDict [(''language'', PStr (info_language info)),
                       (''duration'', PFloat (info_duration info)),
                       (''text'', PStr ''''),
                       (''segments'', PList [])])"
  using assms by (simp add: transcribe_audio_result)

theorem empty_transcription_witness:
  "WhisperModel (stub_library Gen_Stop) ''large-v3'' ''cpu'' ''int8'' = Inr ()
   \<and> transcribe (stub_library Gen_Stop) () ''silence.wav'' ''ur'' 5 False
       = Inr (Gen_Stop, \<lparr>info_language = ''ur'', info_duration = 4\<rparr>)
   \<and> fst (transcribe_audio (stub_library Gen_Stop) ''silence.wav'' ''ur'' init_process) =
       Inr (PDict [(''language'', PStr ''ur''), (''duration'', PFloat 4),
                   (''text'', PStr ''''), (''segments'', PList [])])"
  using empty_transcription [of "stub_library Gen_Stop" "()" "''silence.wav''" "''ur''"
      "\<lparr>info_language = ''ur'', info_duration = 4\<rparr>" init_process]
  by (simp add: stub_library_def)

end
